theory Spec2Isabelle
  imports Complex_Main "HOL-Library.Sublist" "HOL-Library.AList"
begin

section \<open>Strings\<close>

text \<open>
  Python strings are modelled as \<^typ>\<open>string\<close>: the UTF-8 bytes of the text. Case
  mapping is the ASCII one (\<open>A\<close>..\<open>Z\<close> to \<open>a\<close>..\<open>z\<close>); bytes outside ASCII are left
  alone, where Python and polars lowercase by Unicode. The model is that of the code on
  ASCII text only, and every string on which a statement below evaluates \<open>lower\<close> is
  ASCII. Numbers (Python floats, polars Float64) are modelled as exact rationals.
\<close>

definition lower_char :: "char \<Rightarrow> char" where
  "lower_char c =
     (let n = (of_char c :: nat) in if 65 \<le> n \<and> n \<le> 90 then char_of (n + 32) else c)"

text \<open>\<open>s.lower()\<close>\<close>

definition lower :: "string \<Rightarrow> string" where
  "lower s = map lower_char s"

text \<open>\<open>p in s\<close> on strings: \<open>p\<close> occurs in \<open>s\<close> as a contiguous run.\<close>

fun starts_with :: "string \<Rightarrow> string \<Rightarrow> bool" where
  "starts_with [] s = True"
| "starts_with (c # p) [] = False"
| "starts_with (c # p) (d # s) = (c = d \<and> starts_with p s)"

fun str_in :: "string \<Rightarrow> string \<Rightarrow> bool" where
  "str_in p [] = (p = [])"
| "str_in p (d # s) = (starts_with p (d # s) \<or> str_in p s)"

text \<open>\<open>key.split("_")[0]\<close>: the text before the first underscore.\<close>

definition split_first :: "string \<Rightarrow> string" where
  "split_first key = takeWhile (\<lambda>c. c \<noteq> CHR ''_'') key"

text \<open>\<open>s.replace("_", "")\<close>\<close>

definition strip_underscores :: "string \<Rightarrow> string" where
  "strip_underscores s = filter (\<lambda>c. c \<noteq> CHR ''_'') s"

section \<open>The guideline registry (nutritional\_guidelines.py)\<close>

record NutrientRequirement =
  rda_male :: "rat option"
  rda_female :: "rat option"
  upper_limit :: "rat option"
  unit :: string
  name :: string

text \<open>The unit \<open>\<mu>g\<close>, as its UTF-8 bytes.\<close>

definition ug :: string where
  "ug = [CHR 0xCE, CHR 0xBC, CHR ''g'']"

definition req :: "rat option \<Rightarrow> rat option \<Rightarrow> rat option \<Rightarrow> string \<Rightarrow> string
    \<Rightarrow> NutrientRequirement" where
  "req m f u un nm =
     \<lparr>rda_male = m, rda_female = f, upper_limit = u, unit = un, name = nm\<rparr>"

text \<open>
  \<open>_load_official_guidelines\<close>: the dict literal, in its insertion order (the order in
  which \<open>for key in self.guidelines\<close> visits the keys).
\<close>

definition load_official_guidelines :: "(string \<times> NutrientRequirement) list" where
  "load_official_guidelines =
   [(''vitamin_a_ug'', req (Some 900) (Some 700) (Some 3000) ug ''Vitamin A''),
    (''vitamin_d_ug'', req (Some 15) (Some 15) (Some 100) ug ''Vitamin D''),
    (''vitamin_e_mg'', req (Some 15) (Some 15) (Some 1000) ''mg'' ''Vitamin E''),
    (''vitamin_k_ug'', req (Some 120) (Some 90) None ug ''Vitamin K''),
    (''vitamin_c_mg'', req (Some 90) (Some 75) (Some 2000) ''mg'' ''Vitamin C''),
    (''thiamin_mg'', req (Some (12 / 10)) (Some (11 / 10)) None ''mg'' ''Thiamin (B1)''),
    (''riboflavin_mg'', req (Some (13 / 10)) (Some (11 / 10)) None ''mg'' ''Riboflavin (B2)''),
    (''niacin_mg'', req (Some 16) (Some 14) (Some 35) ''mg'' ''Niacin (B3)''),
    (''vitamin_b6_mg'', req (Some (13 / 10)) (Some (13 / 10)) (Some 100) ''mg'' ''Vitamin B6''),
    (''folate_ug'', req (Some 400) (Some 400) (Some 1000) ug ''Folate''),
    (''vitamin_b12_ug'', req (Some (24 / 10)) (Some (24 / 10)) None ug ''Vitamin B12''),
    (''calcium_mg'', req (Some 1000) (Some 1000) (Some 2500) ''mg'' ''Calcium''),
    (''iron_mg'', req (Some 8) (Some 18) (Some 45) ''mg'' ''Iron''),
    (''magnesium_mg'', req (Some 400) (Some 310) (Some 350) ''mg'' ''Magnesium''),
    (''phosphorus_mg'', req (Some 700) (Some 700) (Some 4000) ''mg'' ''Phosphorus''),
    (''potassium_mg'', req (Some 3400) (Some 2600) None ''mg'' ''Potassium''),
    (''sodium_mg'', req (Some 1500) (Some 1500) (Some 2300) ''mg'' ''Sodium''),
    (''zinc_mg'', req (Some 11) (Some 8) (Some 40) ''mg'' ''Zinc''),
    (''copper_mg'', req (Some (9 / 10)) (Some (9 / 10)) (Some 10) ''mg'' ''Copper''),
    (''selenium_ug'', req (Some 55) (Some 55) (Some 400) ug ''Selenium''),
    (''manganese_mg'', req (Some (23 / 10)) (Some (18 / 10)) (Some 11) ''mg'' ''Manganese''),
    (''chromium_ug'', req (Some 35) (Some 25) None ug ''Chromium''),
    (''molybdenum_ug'', req (Some 45) (Some 45) (Some 2000) ug ''Molybdenum''),
    (''iodine_ug'', req (Some 150) (Some 150) (Some 1100) ug ''Iodine''),
    (''protein_g'', req (Some 56) (Some 46) None ''g'' ''Protein''),
    (''fiber_g'', req (Some 38) (Some 25) None ''g'' ''Dietary Fiber''),
    (''saturated_fat_g'', req None None (Some 20) ''g'' ''Saturated Fat''),
    (''cholesterol_mg'', req None None (Some 300) ''mg'' ''Cholesterol''),
    (''sugars_g'', req None None (Some 50) ''g'' ''Added Sugars'')]"

text \<open>
  The dict returned by \<open>get_requirement\<close>: its keys \<open>nutrient\<close>, \<open>rda\<close>, \<open>upper_limit\<close>,
  \<open>unit\<close> and the two entries of \<open>gender_specific\<close>. The empty dict \<open>{}\<close> returned for an
  unknown key is \<open>None\<close>.
\<close>

record requirement_view =
  rv_nutrient :: string
  rv_rda :: "rat option"
  rv_upper_limit :: "rat option"
  rv_unit :: string
  rv_male :: "rat option"
  rv_female :: "rat option"

definition get_requirement ::
  "(string \<times> NutrientRequirement) list \<Rightarrow> string \<Rightarrow> string \<Rightarrow> requirement_view option" where
  "get_requirement guidelines nutrient_key gender =
     (case map_of guidelines nutrient_key of
        None \<Rightarrow> None
      | Some r \<Rightarrow>
          let rda_value =
            (if gender = ''male'' \<and> rda_male r \<noteq> None then rda_male r
             else if gender = ''female'' \<and> rda_female r \<noteq> None then rda_female r
             else (case rda_male r of
                     Some m \<Rightarrow> (case rda_female r of
                                  Some f \<Rightarrow> Some ((m + f) / 2)
                                | None \<Rightarrow> Some m)
                   | None \<Rightarrow> rda_female r))
          in Some \<lparr>rv_nutrient = name r, rv_rda = rda_value,
                   rv_upper_limit = upper_limit r, rv_unit = unit r,
                   rv_male = rda_male r, rv_female = rda_female r\<rparr>)"

text \<open>The fuzzy tier of \<open>match_nutrient_key\<close>: the \<open>for key in self.guidelines\<close> loop.\<close>

fun fuzzy_match :: "string list \<Rightarrow> string \<Rightarrow> string" where
  "fuzzy_match [] nutrient_column = ''''"
| "fuzzy_match (key # keys) nutrient_column =
     (if str_in (split_first key) (lower nutrient_column)
         \<and> str_in (strip_underscores key) (strip_underscores nutrient_column)
      then key
      else fuzzy_match keys nutrient_column)"

definition match_nutrient_key ::
  "(string \<times> NutrientRequirement) list \<Rightarrow> string \<Rightarrow> string" where
  "match_nutrient_key guidelines nutrient_column =
     (if nutrient_column \<in> set (map fst guidelines) then nutrient_column
      else fuzzy_match (map fst guidelines) nutrient_column)"

section \<open>The requirement evaluator (nutrient\_processor.py, check\_daily\_requirements)\<close>

datatype py_error = KeyError | ZeroDivisionError | ComputeError | DuplicateError

datatype classification = below_minimum | above_maximum | adequate

text \<open>One value of the \<open>status\<close> dict: the keys \<open>amount\<close>, \<open>min\<close>, \<open>max\<close>, \<open>unit\<close>, \<open>status\<close>.\<close>

record status_entry =
  st_amount :: rat
  st_min :: "rat option"
  st_max :: "rat option"
  st_unit :: string
  st_status :: classification

text \<open>
  The entry built for one matched nutrient. In \<open>if rda and amount < rda\<close> and
  \<open>elif upper_limit and amount > upper_limit\<close> the left operand is tested for Python
  truth: \<open>None\<close> and \<open>0\<close> are both false.
\<close>

definition status_of :: "requirement_view \<Rightarrow> rat \<Rightarrow> status_entry" where
  "status_of rq amount =
     (let rda = rv_rda rq; upper_limit = rv_upper_limit rq
      in \<lparr>st_amount = amount, st_min = rda, st_max = upper_limit, st_unit = rv_unit rq,
          st_status =
            (if (case rda of None \<Rightarrow> False | Some r \<Rightarrow> r \<noteq> 0 \<and> amount < r)
               then below_minimum
             else if (case upper_limit of None \<Rightarrow> False | Some u \<Rightarrow> u \<noteq> 0 \<and> amount > u)
               then above_maximum
             else adequate)\<rparr>)"

text \<open>
  The loop over the rows \<open>(nutrient, total_amount)\<close> of the profile. \<open>status[nutrient] = ...\<close>
  is a dict assignment: it replaces the value of a key already present, in place, and
  appends a new key. \<open>req["unit"]\<close> on the empty dict would raise \<open>KeyError\<close>.
\<close>

fun check_loop :: "(string \<times> NutrientRequirement) list \<Rightarrow> string \<Rightarrow> (string \<times> rat) list
    \<Rightarrow> (string \<times> status_entry) list \<Rightarrow> py_error + (string \<times> status_entry) list" where
  "check_loop g gender [] status = Inr status"
| "check_loop g gender ((nutrient, amount) # rest) status =
     (let matched_key = match_nutrient_key g nutrient
      in if matched_key \<noteq> '''' then
           (case get_requirement g matched_key gender of
              None \<Rightarrow> Inl KeyError
            | Some rq \<Rightarrow>
                check_loop g gender rest (AList.update nutrient (status_of rq amount) status))
         else check_loop g gender rest status)"

definition check_daily_requirements :: "(string \<times> NutrientRequirement) list \<Rightarrow> string
    \<Rightarrow> (string \<times> rat) list \<Rightarrow> py_error + (string \<times> status_entry) list" where
  "check_daily_requirements g gender nutrient_profile = check_loop g gender nutrient_profile []"

section \<open>The nutrient table (nutrient\_processor.py)\<close>

text \<open>
  A row of the table. The five metadata columns are fields; the nutrient columns are
  read through \<open>amounts\<close>, where \<open>None\<close> is a null cell. \<open>serving_size\<close> is a number
  in every row (the loader writes \<open>100.0\<close>).
\<close>

record FoodRecord =
  fdc_id :: int
  description :: string
  data_type :: string
  serving_size :: rat
  serving_unit :: string
  amounts :: "string \<Rightarrow> rat option"

text \<open>
  The \<open>DataFrame\<close> \<open>self.df\<close>: its nutrient column names, in column order, and its rows.
  The metadata columns come first, as the loader builds them.
\<close>

record DataFrame =
  nutrient_columns :: "string list"
  rows :: "FoodRecord list"

definition metadata_columns :: "string list" where
  "metadata_columns = [''fdc_id'', ''description'', ''data_type'', ''serving_size'', ''serving_unit'']"

definition columns :: "DataFrame \<Rightarrow> string list" where
  "columns df = metadata_columns @ nutrient_columns df"

text \<open>\<open>df.is_empty()\<close>: the frame has no rows.\<close>

definition is_empty :: "DataFrame \<Rightarrow> bool" where
  "is_empty df = (rows df = [])"

definition get_available_nutrients :: "DataFrame \<Rightarrow> string list" where
  "get_available_nutrients df =
     (if is_empty df then []
      else filter (\<lambda>col. col \<notin> set metadata_columns) (columns df))"

subsection \<open>get\_food\_nutrients\<close>

text \<open>
  \<open>re.sub(r'\([^)]*\)', '', s)\<close>: scanning from the left, an opening parenthesis that
  has a closing one somewhere after it is removed together with everything up to the
  first closing one.
\<close>

function remove_parens :: "string \<Rightarrow> string" where
  "remove_parens [] = []"
| "remove_parens (c # s) =
     (if c = CHR ''('' \<and> CHR '')'' \<in> set s
      then remove_parens (tl (dropWhile (\<lambda>d. d \<noteq> CHR '')'') s))
      else c # remove_parens s)"
  by pat_completeness auto
termination
proof (relation "measure length")
  show "wf (measure length)" by simp
next
  fix c :: char and s :: string
  have "length (tl (dropWhile (\<lambda>d. d \<noteq> CHR '')'') s)) \<le> length s"
    using length_dropWhile_le [of "\<lambda>d. d \<noteq> CHR '')''" s] by simp
  then show "(tl (dropWhile (\<lambda>d. d \<noteq> CHR '')'') s), c # s) \<in> measure length"
    by simp
next
  fix c :: char and s :: string
  show "(s, c # s) \<in> measure length" by simp
qed

text \<open>\<open>s.strip()\<close>: the ASCII whitespace characters are removed at both ends.\<close>

definition is_space :: "char \<Rightarrow> bool" where
  "is_space c = (let n = (of_char c :: nat) in (9 \<le> n \<and> n \<le> 13) \<or> (28 \<le> n \<and> n \<le> 32))"

definition strip :: "string \<Rightarrow> string" where
  "strip s = rev (dropWhile is_space (rev (dropWhile is_space s)))"

text \<open>Tier 1: \<open>self.df.filter(pl.col("description") == food_name)\<close>.\<close>

definition exact_matches :: "DataFrame \<Rightarrow> string \<Rightarrow> FoodRecord list" where
  "exact_matches df food_name = filter (\<lambda>r. description r = food_name) (rows df)"

text \<open>
  \<open>self.df.filter(pl.col("description").str.to_lowercase().str.contains(re.escape(p)))\<close>:
  the pattern is escaped, so the regular expression search is the search for \<open>p\<close> as
  literal text in the lowercased description.
\<close>

definition contains_escaped :: "DataFrame \<Rightarrow> string \<Rightarrow> FoodRecord list" where
  "contains_escaped df p = filter (\<lambda>r. str_in p (lower (description r))) (rows df)"

text \<open>The \<open>matches\<close> frame of \<open>get_food_nutrients\<close> (the three tiers).\<close>

definition food_matches :: "DataFrame \<Rightarrow> string \<Rightarrow> FoodRecord list" where
  "food_matches df food_name =
     (if exact_matches df food_name \<noteq> [] then exact_matches df food_name
      else if contains_escaped df (lower food_name) \<noteq> []
        then contains_escaped df (lower food_name)
      else contains_escaped df (lower (strip (remove_parens food_name))))"

text \<open>
  The long-format result: rows \<open>(description, nutrient, amount)\<close>. \<open>melt\<close> lists the
  value columns one after the other, each over all matched rows; the final filter keeps
  the amounts above zero (a null amount is dropped).
\<close>

definition get_food_nutrients :: "DataFrame \<Rightarrow> string \<Rightarrow> (string \<times> string \<times> rat) list" where
  "get_food_nutrients df food_name =
     (if is_empty df then []
      else let matches = food_matches df food_name
           in if matches = [] then []
              else concat (map (\<lambda>nutrient.
                     concat (map (\<lambda>r. case amounts r nutrient of
                                          None \<Rightarrow> []
                                        | Some amount \<Rightarrow>
                                            if amount > 0 then [(description r, nutrient, amount)]
                                            else [])
                                 matches))
                   (get_available_nutrients df)))"

subsection \<open>get\_top\_foods\_for\_nutrient\<close>

text \<open>
  A polars Float64 expression does not raise on division by zero: it gives an infinity or
  NaN. Finite values are exact rationals here, so an expression is kept in the order of
  operations the code gives it and no law of exact arithmetic is used to rearrange it.
\<close>

datatype f64 = Fin rat | PosInf | NegInf | NaN

definition pl_div :: "rat \<Rightarrow> rat \<Rightarrow> f64" where
  "pl_div a b =
     (if b \<noteq> 0 then Fin (a / b)
      else if a > 0 then PosInf else if a < 0 then NegInf else NaN)"

text \<open>The order \<open>sort\<close> uses on Float64: NaN is the greatest value.\<close>

fun f64_le :: "f64 \<Rightarrow> f64 \<Rightarrow> bool" where
  "f64_le x NaN = True"
| "f64_le NaN y = False"
| "f64_le NegInf y = True"
| "f64_le x NegInf = False"
| "f64_le x PosInf = True"
| "f64_le PosInf y = False"
| "f64_le (Fin a) (Fin b) = (a \<le> b)"

text \<open>A row of the result: \<open>description\<close>, \<open>amount_per_100g\<close>, \<open>serving_size\<close>, \<open>amount_per_ounce\<close>.\<close>

record RankedFood =
  rf_description :: string
  amount_per_100g :: rat
  rf_serving_size :: rat
  amount_per_ounce :: f64

text \<open>
  \<open>sort("amount_per_ounce", descending=True)\<close>, as an insertion sort that keeps rows of
  equal value in their order (polars leaves the order of equal rows open).
\<close>

fun insert_desc :: "RankedFood \<Rightarrow> RankedFood list \<Rightarrow> RankedFood list" where
  "insert_desc x [] = [x]"
| "insert_desc x (y # ys) =
     (if f64_le (amount_per_ounce y) (amount_per_ounce x) then x # y # ys
      else y # insert_desc x ys)"

definition sort_desc :: "RankedFood list \<Rightarrow> RankedFood list" where
  "sort_desc xs = foldr insert_desc xs []"

text \<open>\<open>head(n)\<close>: the first \<open>n\<close> rows; for a negative \<open>n\<close>, all rows but the last \<open>|n|\<close>.\<close>

definition head :: "int \<Rightarrow> 'a list \<Rightarrow> 'a list" where
  "head n xs = (if 0 \<le> n then take (nat n) xs else take (length xs - nat (- n)) xs)"

text \<open>
  \<open>[col for col in self.df.columns if nutrient_name.lower() in col.lower()]\<close>, first
  element if any. All columns are searched, the metadata columns too.
\<close>

definition select_column :: "DataFrame \<Rightarrow> string \<Rightarrow> string option" where
  "select_column df nutrient_name =
     (case filter (\<lambda>col. str_in (lower nutrient_name) (lower col)) (columns df) of
        [] \<Rightarrow> None
      | nutrient_col # _ \<Rightarrow> Some nutrient_col)"

text \<open>The numeric value of a row in the selected column (\<open>fdc_id\<close> is the numeric metadata column).\<close>

definition column_value :: "FoodRecord \<Rightarrow> string \<Rightarrow> rat option" where
  "column_value r col = (if col = ''fdc_id'' then Some (of_int (fdc_id r)) else amounts r col)"

definition ranked :: "string \<Rightarrow> FoodRecord \<Rightarrow> RankedFood list" where
  "ranked nutrient_col r =
     (case column_value r nutrient_col of
        None \<Rightarrow> []
      | Some v \<Rightarrow>
          if v > 0
          then [\<lparr>rf_description = description r, amount_per_100g = v,
                 rf_serving_size = serving_size r,
                 amount_per_ounce = pl_div (v * 28.35) (serving_size r)\<rparr>]
          else [])"

text \<open>
  Selecting \<open>description\<close> or \<open>serving_size\<close> twice is a polars \<open>DuplicateError\<close>;
  comparing a text column with \<open>0\<close> is a polars error as well.
\<close>

definition get_top_foods_for_nutrient ::
  "DataFrame \<Rightarrow> string \<Rightarrow> int \<Rightarrow> py_error + RankedFood list" where
  "get_top_foods_for_nutrient df nutrient_name top_n =
     (if is_empty df then Inr []
      else case select_column df nutrient_name of
        None \<Rightarrow> Inr []
      | Some nutrient_col \<Rightarrow>
          if nutrient_col = ''description'' \<or> nutrient_col = ''serving_size''
            then Inl DuplicateError
          else if nutrient_col = ''data_type'' \<or> nutrient_col = ''serving_unit''
            then Inl ComputeError
          else Inr (head top_n (sort_desc (concat (map (ranked nutrient_col) (rows df))))))"

subsection \<open>get\_nutrient\_profile\<close>

text \<open>An element of \<open>food_items\<close>: a dict with the keys \<open>food\<close> and \<open>amount_g\<close>.\<close>

record food_item =
  food :: string
  amount_g :: rat

text \<open>
  \<open>pl.col("description").str.to_lowercase().str.contains(food_name.lower())\<close>: here the
  pattern is not escaped, so it is read as a regular expression. A pattern without any
  of the characters below stands for itself and the search is the search for literal
  text. For the other patterns the regular expression engine is a parameter \<open>rx\<close>:
  \<open>rx p\<close> is \<open>None\<close> when \<open>p\<close> is not a valid expression (polars raises
  \<open>ComputeError\<close>), and the search predicate of \<open>p\<close> otherwise.
\<close>

definition regex_special :: "char list" where
  "regex_special = CHR 0x5C # ''.+*?()|[]{}^$''"

definition plain_pattern :: "string \<Rightarrow> bool" where
  "plain_pattern p = list_all (\<lambda>c. c \<notin> set regex_special) p"

definition str_contains ::
  "(string \<Rightarrow> (string \<Rightarrow> bool) option) \<Rightarrow> string \<Rightarrow> (string \<Rightarrow> bool) option" where
  "str_contains rx p = (if plain_pattern p then Some (str_in p) else rx p)"

text \<open>An engine that accepts no pattern: for evaluating queries that are plain text.\<close>

definition reject_all :: "string \<Rightarrow> (string \<Rightarrow> bool) option" where
  "reject_all p = None"

text \<open>
  The record an item is scaled by: \<open>matches[0]\<close> when \<open>matches\<close> is not empty.
\<close>

definition find_food :: "(string \<Rightarrow> (string \<Rightarrow> bool) option) \<Rightarrow> DataFrame \<Rightarrow> string
    \<Rightarrow> py_error + FoodRecord option" where
  "find_food rx df food_name =
     (case str_contains rx (lower food_name) of
        None \<Rightarrow> Inl ComputeError
      | Some m \<Rightarrow>
          Inr (case filter (\<lambda>r. m (lower (description r))) (rows df) of
                 [] \<Rightarrow> None
               | food_data # _ \<Rightarrow> Some food_data))"

text \<open>
  The loop \<open>for nutrient in nutrient_cols\<close> for one matched record. \<open>nutrient_totals\<close> is
  a dict in insertion order. The division is Python's: it raises on a zero divisor.
\<close>

fun add_nutrients :: "string list \<Rightarrow> FoodRecord \<Rightarrow> rat \<Rightarrow> (string \<times> rat) list
    \<Rightarrow> py_error + (string \<times> rat) list" where
  "add_nutrients [] food_data amount nutrient_totals = Inr nutrient_totals"
| "add_nutrients (nutrient # rest) food_data amount nutrient_totals =
     (case amounts food_data nutrient of
        None \<Rightarrow> add_nutrients rest food_data amount nutrient_totals
      | Some v \<Rightarrow>
          if serving_size food_data = 0 then Inl ZeroDivisionError
          else add_nutrients rest food_data amount
                 (AList.update nutrient
                    ((case map_of nutrient_totals nutrient of None \<Rightarrow> 0 | Some t \<Rightarrow> t)
                       + v * amount / serving_size food_data)
                    nutrient_totals))"

text \<open>The loop \<open>for item in food_items\<close>.\<close>

fun profile_loop :: "(string \<Rightarrow> (string \<Rightarrow> bool) option) \<Rightarrow> DataFrame \<Rightarrow> string list
    \<Rightarrow> food_item list \<Rightarrow> (string \<times> rat) list \<Rightarrow> py_error + (string \<times> rat) list" where
  "profile_loop rx df nutrient_cols [] nutrient_totals = Inr nutrient_totals"
| "profile_loop rx df nutrient_cols (item # items) nutrient_totals =
     (case find_food rx df (food item) of
        Inl e \<Rightarrow> Inl e
      | Inr None \<Rightarrow> profile_loop rx df nutrient_cols items nutrient_totals
      | Inr (Some food_data) \<Rightarrow>
          (case add_nutrients nutrient_cols food_data (amount_g item) nutrient_totals of
             Inl e \<Rightarrow> Inl e
           | Inr totals \<Rightarrow> profile_loop rx df nutrient_cols items totals))"

text \<open>
  The \<open>daily_value_pct\<close> of one nutrient: \<open>if req.get("rda")\<close> is a truth test, so an
  \<open>rda\<close> of \<open>None\<close> or \<open>0\<close> gives no percentage.
\<close>

definition daily_value_pct ::
  "(string \<times> NutrientRequirement) list \<Rightarrow> string \<Rightarrow> string \<Rightarrow> rat \<Rightarrow> rat option" where
  "daily_value_pct g gender nutrient total_amount =
     (let matched_key = match_nutrient_key g nutrient
      in if matched_key \<noteq> '''' then
           (case get_requirement g matched_key gender of
              None \<Rightarrow> None
            | Some rq \<Rightarrow>
                (case rv_rda rq of
                   None \<Rightarrow> None
                 | Some rda \<Rightarrow> if rda \<noteq> 0 then Some (total_amount / rda * 100) else None))
         else None)"

text \<open>
  The result: rows \<open>(nutrient, total_amount, daily_value_pct)\<close>; the empty list is the
  empty frame. The keys of \<open>nutrient_totals\<close> are distinct, so the total found through
  \<open>index(nutrient)\<close> is the nutrient's own.
\<close>

definition get_nutrient_profile :: "(string \<Rightarrow> (string \<Rightarrow> bool) option)
    \<Rightarrow> (string \<times> NutrientRequirement) list \<Rightarrow> string \<Rightarrow> DataFrame \<Rightarrow> food_item list
    \<Rightarrow> py_error + (string \<times> rat \<times> rat option) list" where
  "get_nutrient_profile rx g gender df food_items =
     (if is_empty df then Inr []
      else case profile_loop rx df (get_available_nutrients df) food_items [] of
        Inl e \<Rightarrow> Inl e
      | Inr nutrient_totals \<Rightarrow>
          Inr (map (\<lambda>(nutrient, total_amount).
                  (nutrient, total_amount, daily_value_pct g gender nutrient total_amount))
                 nutrient_totals))"

subsection \<open>\_clean\_data\<close>





section \<open>Example tables\<close>

definition food_row :: "string \<Rightarrow> rat \<Rightarrow> (string \<times> rat) list \<Rightarrow> FoodRecord" where
  "food_row d s a =
     \<lparr>fdc_id = 1, description = d, data_type = ''Foundation'', serving_size = s,
      serving_unit = ''g'', amounts = map_of a\<rparr>"

definition apple_table :: DataFrame where
  "apple_table =
     \<lparr>nutrient_columns = [''iron_mg'', ''zinc_mg''],
      rows = [food_row ''Apple, Raw'' 100 [(''iron_mg'', 0.12), (''zinc_mg'', 0)]]\<rparr>"

definition serving_table :: DataFrame where
  "serving_table =
     \<lparr>nutrient_columns = [''iron_mg''],
      rows = [food_row ''Oats'' 100 [(''iron_mg'', 10)],
              food_row ''Beef'' 0 [(''iron_mg'', 2)],
              food_row ''Pork'' (- 50) [(''iron_mg'', 1)]]\<rparr>"

definition oats_table :: DataFrame where
  "oats_table =
     \<lparr>nutrient_columns = [''iron_mg''],
      rows = [food_row ''Oats'' 100 [(''iron_mg'', 10)]]\<rparr>"

definition pie_table :: DataFrame where
  "pie_table =
     \<lparr>nutrient_columns = [''iron_mg''],
      rows = [food_row ''Apple Pie'' 100 [(''iron_mg'', 1)],
              food_row ''Apple'' 100 [(''iron_mg'', 0.12)]]\<rparr>"




section \<open>Properties of the strings and the registry\<close>

lemma starts_with_prefix: "starts_with p s = prefix p s"
  by (induction p s rule: starts_with.induct) auto

lemma str_in_sublist: "str_in p s = sublist p s"
  by (induction s) (auto simp: starts_with_prefix sublist_Cons_right)

lemma keys_lower: "list_all (\<lambda>k. lower k = k) (map fst load_official_guidelines)"
  by code_simp

lemma keys_no_nesting:
  "list_all (\<lambda>k. list_all (\<lambda>k'. str_in (strip_underscores k') (strip_underscores k) \<longrightarrow> k' = k)
      (map fst load_official_guidelines)) (map fst load_official_guidelines)"
  by code_simp

lemma lower_char_underscore: "(lower_char c = CHR ''_'') = (c = CHR ''_'')"
proof
  assume h: "lower_char c = CHR ''_''"
  show "c = CHR ''_''"
  proof (cases "65 \<le> (of_char c :: nat) \<and> (of_char c :: nat) \<le> 90")
    case True
    then have "lower_char c = char_of ((of_char c :: nat) + 32)"
      by (simp add: lower_char_def Let_def)
    then have "(of_char (lower_char c) :: nat) = ((of_char c :: nat) + 32) mod 256"
      by simp
    with True have "(of_char (lower_char c) :: nat) = (of_char c :: nat) + 32" by simp
    with h True show ?thesis by simp
  next
    case False
    with h show ?thesis by (simp add: lower_char_def Let_def)
  qed
next
  assume "c = CHR ''_''"
  then show "lower_char c = CHR ''_''" by (simp add: lower_char_def)
qed

lemma strip_lower: "strip_underscores (lower s) = lower (strip_underscores s)"
  by (induction s) (simp_all add: strip_underscores_def lower_def lower_char_underscore)

lemma sublist_same_length: "sublist xs ys \<Longrightarrow> length xs = length ys \<Longrightarrow> xs = ys"
  by (auto simp: sublist_def)

lemma lower_strip_fixed:
  "lower (strip_underscores s) = strip_underscores s \<Longrightarrow> lower s = s"
  by (induction s) (auto simp: strip_underscores_def lower_def lower_char_underscore split: if_splits)

lemma fuzzy_match_none:
  "\<forall>k \<in> set keys. \<not> str_in (strip_underscores k) (strip_underscores c) \<Longrightarrow> fuzzy_match keys c = ''''"
  by (induction keys) auto

lemma second_condition_fails:
  assumes kc: "lower c \<in> set (map fst load_official_guidelines)"
    and ne: "c \<noteq> lower c"
    and k': "k' \<in> set (map fst load_official_guidelines)"
  shows "\<not> str_in (strip_underscores k') (strip_underscores c)"
proof
  assume "str_in (strip_underscores k') (strip_underscores c)"
  then have "sublist (strip_underscores k') (strip_underscores c)"
    by (simp add: str_in_sublist)
  then have "sublist (lower (strip_underscores k')) (lower (strip_underscores c))"
    unfolding lower_def by (rule map_mono_sublist)
  then have "sublist (strip_underscores (lower k')) (strip_underscores (lower c))"
    by (simp only: strip_lower)
  moreover from k' keys_lower have "lower k' = k'"
    unfolding list_all_iff by blast
  ultimately have s: "str_in (strip_underscores k') (strip_underscores (lower c))"
    by (simp add: str_in_sublist)
  from keys_no_nesting kc k' s have "k' = lower c"
    unfolding list_all_iff by blast
  with \<open>sublist (strip_underscores k') (strip_underscores c)\<close>
  have "sublist (lower (strip_underscores c)) (strip_underscores c)"
    by (simp add: strip_lower)
  then have "lower (strip_underscores c) = strip_underscores c"
    by (rule sublist_same_length) (simp add: lower_def)
  then have "lower c = c" by (rule lower_strip_fixed)
  with ne show False by simp
qed

text \<open>
  Claim C10. In the fuzzy tier of \<open>match_nutrient_key\<close> the first condition reads the
  lowercased identifier and the second reads the identifier as given. So an identifier
  \<open>c\<close> that differs from a registry key only by uppercase letters (its lowercase form is
  a key, and it is not its own lowercase form) is not a key itself, passes the first
  condition for that key, fails the second condition for every key, and is matched to
  the empty string.
\<close>

theorem match_nutrient_key_uppercase:
  assumes kc: "lower c \<in> set (map fst load_official_guidelines)"
    and ne: "c \<noteq> lower c"
  shows "c \<notin> set (map fst load_official_guidelines)
       \<and> str_in (split_first (lower c)) (lower c)
       \<and> (\<forall>k \<in> set (map fst load_official_guidelines).
             \<not> str_in (strip_underscores k) (strip_underscores c))
       \<and> match_nutrient_key load_official_guidelines c = ''''"
proof -
  have a: "c \<notin> set (map fst load_official_guidelines)"
  proof
    assume "c \<in> set (map fst load_official_guidelines)"
    with keys_lower have "lower c = c" unfolding list_all_iff by blast
    with ne show False by simp
  qed
  have b: "\<forall>k \<in> set (map fst load_official_guidelines).
             \<not> str_in (strip_underscores k) (strip_underscores c)"
    using second_condition_fails [OF kc ne] by blast
  have "prefix (takeWhile (\<lambda>x. x \<noteq> CHR ''_'') (lower c)) (lower c)"
    by (metis prefixI takeWhile_dropWhile_id)
  then have c: "str_in (split_first (lower c)) (lower c)"
    by (simp add: str_in_sublist split_first_def prefix_imp_sublist)
  from a b have d: "match_nutrient_key load_official_guidelines c = ''''"
    by (simp only: match_nutrient_key_def if_False fuzzy_match_none)
  from a b c d show ?thesis by blast
qed

theorem match_nutrient_key_uppercase_witness:
  "lower ''Vitamin_C_Mg'' = ''vitamin_c_mg''
   \<and> ''Vitamin_C_Mg'' \<noteq> lower ''Vitamin_C_Mg''
   \<and> ''Vitamin_C_Mg'' \<notin> set (map fst load_official_guidelines)
   \<and> match_nutrient_key load_official_guidelines ''Vitamin_C_Mg'' = ''''"
proof -
  have l: "lower ''Vitamin_C_Mg'' = ''vitamin_c_mg''" by code_simp
  have h1: "lower ''Vitamin_C_Mg'' \<in> set (map fst load_official_guidelines)"
    unfolding l by (simp add: load_official_guidelines_def)
  have h2: "''Vitamin_C_Mg'' \<noteq> lower ''Vitamin_C_Mg''" unfolding l by simp
  from match_nutrient_key_uppercase [OF h1 h2] l h2 show ?thesis by blast
qed

text \<open>
  Claim C7. For any registry \<open>g\<close>: an unknown key gives the empty result (for every
  gender); for a known key, gender \<open>average\<close> gives as \<open>rda\<close> the mean of the male and
  female values when both are defined, the defined one when only one is, and none when
  neither is. In the official registry the iron key (male 8, female 18) gives 13.
\<close>

theorem get_requirement_average:
  "(map_of g key = None \<longrightarrow> get_requirement g key gender = None)
   \<and> (map_of g key = Some r \<longrightarrow>
        (\<exists>v. get_requirement g key ''average'' = Some v
           \<and> (\<forall>m f. rda_male r = Some m \<and> rda_female r = Some f \<longrightarrow> rv_rda v = Some ((m + f) / 2))
           \<and> (\<forall>m. rda_male r = Some m \<and> rda_female r = None \<longrightarrow> rv_rda v = Some m)
           \<and> (\<forall>f. rda_male r = None \<and> rda_female r = Some f \<longrightarrow> rv_rda v = Some f)
           \<and> (rda_male r = None \<and> rda_female r = None \<longrightarrow> rv_rda v = None)))
   \<and> (\<exists>v. get_requirement load_official_guidelines ''iron_mg'' ''average'' = Some v
           \<and> rv_male v = Some 8 \<and> rv_female v = Some 18 \<and> rv_rda v = Some 13)"
proof (intro conjI impI)
  assume "map_of g key = None"
  then show "get_requirement g key gender = None" by (simp add: get_requirement_def)
next
  assume "map_of g key = Some r"
  then show "\<exists>v. get_requirement g key ''average'' = Some v
           \<and> (\<forall>m f. rda_male r = Some m \<and> rda_female r = Some f \<longrightarrow> rv_rda v = Some ((m + f) / 2))
           \<and> (\<forall>m. rda_male r = Some m \<and> rda_female r = None \<longrightarrow> rv_rda v = Some m)
           \<and> (\<forall>f. rda_male r = None \<and> rda_female r = Some f \<longrightarrow> rv_rda v = Some f)
           \<and> (rda_male r = None \<and> rda_female r = None \<longrightarrow> rv_rda v = None)"
    by (auto simp: get_requirement_def)
next
  show "\<exists>v. get_requirement load_official_guidelines ''iron_mg'' ''average'' = Some v
           \<and> rv_male v = Some 8 \<and> rv_female v = Some 18 \<and> rv_rda v = Some 13"
    by (simp add: get_requirement_def load_official_guidelines_def req_def)
qed

theorem get_requirement_average_witness:
  "map_of load_official_guidelines ''zinc_mg'' = Some (req (Some 11) (Some 8) (Some 40) ''mg'' ''Zinc'')
   \<and> (\<exists>v. get_requirement load_official_guidelines ''zinc_mg'' ''average'' = Some v
          \<and> rv_rda v = Some (19 / 2))
   \<and> map_of load_official_guidelines ''sugars_g'' = Some (req None None (Some 50) ''g'' ''Added Sugars'')
   \<and> (\<exists>v. get_requirement load_official_guidelines ''sugars_g'' ''average'' = Some v
          \<and> rv_rda v = None)
   \<and> map_of [(''x'', req (Some 5) None None ''g'' ''X'')] ''x'' = Some (req (Some 5) None None ''g'' ''X'')
   \<and> (\<exists>v. get_requirement [(''x'', req (Some 5) None None ''g'' ''X'')] ''x'' ''average'' = Some v
          \<and> rv_rda v = Some 5)
   \<and> map_of [(''x'', req None (Some 7) None ''g'' ''X'')] ''x'' = Some (req None (Some 7) None ''g'' ''X'')
   \<and> (\<exists>v. get_requirement [(''x'', req None (Some 7) None ''g'' ''X'')] ''x'' ''average'' = Some v
          \<and> rv_rda v = Some 7)
   \<and> map_of load_official_guidelines ''caffeine_mg'' = None
   \<and> get_requirement load_official_guidelines ''caffeine_mg'' ''average'' = None"
proof -
  have z: "map_of load_official_guidelines ''zinc_mg'' = Some (req (Some 11) (Some 8) (Some 40) ''mg'' ''Zinc'')"
    by (simp add: load_official_guidelines_def)
  have s: "map_of load_official_guidelines ''sugars_g'' = Some (req None None (Some 50) ''g'' ''Added Sugars'')"
    by (simp add: load_official_guidelines_def)
  have c: "map_of load_official_guidelines ''caffeine_mg'' = None"
    by (simp add: load_official_guidelines_def)
  have x: "map_of [(''x'', req (Some 5) None None ''g'' ''X'')] ''x'' = Some (req (Some 5) None None ''g'' ''X'')"
    by simp
  have y: "map_of [(''x'', req None (Some 7) None ''g'' ''X'')] ''x'' = Some (req None (Some 7) None ''g'' ''X'')"
    by simp
  have "\<exists>v. get_requirement load_official_guidelines ''zinc_mg'' ''average'' = Some v
          \<and> rv_rda v = Some (19 / 2)"
    using get_requirement_average [of load_official_guidelines "''zinc_mg''" "''average''"
        "req (Some 11) (Some 8) (Some 40) ''mg'' ''Zinc''"] z
    by (simp add: req_def)
  moreover have "\<exists>v. get_requirement load_official_guidelines ''sugars_g'' ''average'' = Some v
          \<and> rv_rda v = None"
    using get_requirement_average [of load_official_guidelines "''sugars_g''" "''average''"
        "req None None (Some 50) ''g'' ''Added Sugars''"] s
    by (simp add: req_def)
  moreover have "\<exists>v. get_requirement [(''x'', req (Some 5) None None ''g'' ''X'')] ''x'' ''average'' = Some v
          \<and> rv_rda v = Some 5"
    using get_requirement_average [of "[(''x'', req (Some 5) None None ''g'' ''X'')]" "''x''" "''average''"
        "req (Some 5) None None ''g'' ''X''"]
    by (simp add: req_def)
  moreover have "\<exists>v. get_requirement [(''x'', req None (Some 7) None ''g'' ''X'')] ''x'' ''average'' = Some v
          \<and> rv_rda v = Some 7"
    using get_requirement_average [of "[(''x'', req None (Some 7) None ''g'' ''X'')]" "''x''" "''average''"
        "req None (Some 7) None ''g'' ''X''"]
    by (simp add: req_def)
  moreover have "get_requirement load_official_guidelines ''caffeine_mg'' ''average'' = None"
    using get_requirement_average [of load_official_guidelines "''caffeine_mg''" "''average''"] c
    by simp
  ultimately show ?thesis using z s c x y by blast
qed

text \<open>
  Claim C9. For any registry and key, a gender string other than exactly \<open>male\<close> or
  \<open>female\<close> gives the same result as \<open>average\<close>; and a request for \<open>male\<close>
  (\<open>female\<close>) on an entry whose male (female) RDA is undefined also gives the result of
  \<open>average\<close>, that is, the averaging and fallback branch, not an absent \<open>rda\<close>.
\<close>

theorem get_requirement_fallthrough:
  "(gender \<noteq> ''male'' \<and> gender \<noteq> ''female'' \<longrightarrow>
       get_requirement g key gender = get_requirement g key ''average'')
   \<and> (map_of g key = Some r \<and> rda_male r = None \<longrightarrow>
       get_requirement g key ''male'' = get_requirement g key ''average'')
   \<and> (map_of g key = Some r \<and> rda_female r = None \<longrightarrow>
       get_requirement g key ''female'' = get_requirement g key ''average'')"
  by (auto simp: get_requirement_def split: option.splits)

theorem get_requirement_fallthrough_witness:
  "get_requirement load_official_guidelines ''iron_mg'' ''Male''
     = get_requirement load_official_guidelines ''iron_mg'' ''average''
   \<and> get_requirement load_official_guidelines ''iron_mg'' ''unknown''
     = get_requirement load_official_guidelines ''iron_mg'' ''average''
   \<and> get_requirement load_official_guidelines ''iron_mg'' ''''
     = get_requirement load_official_guidelines ''iron_mg'' ''average''
   \<and> get_requirement [(''x'', req None (Some 7) None ''g'' ''X'')] ''x'' ''male''
     = get_requirement [(''x'', req None (Some 7) None ''g'' ''X'')] ''x'' ''average''
   \<and> (\<exists>v. get_requirement [(''x'', req None (Some 7) None ''g'' ''X'')] ''x'' ''male'' = Some v
          \<and> rv_rda v = Some 7)
   \<and> get_requirement [(''x'', req (Some 5) None None ''g'' ''X'')] ''x'' ''female''
     = get_requirement [(''x'', req (Some 5) None None ''g'' ''X'')] ''x'' ''average''"
proof -
  have a: "get_requirement load_official_guidelines ''iron_mg'' ''Male''
     = get_requirement load_official_guidelines ''iron_mg'' ''average''"
    using get_requirement_fallthrough [of "''Male''" load_official_guidelines "''iron_mg''"] by simp
  have b: "get_requirement load_official_guidelines ''iron_mg'' ''unknown''
     = get_requirement load_official_guidelines ''iron_mg'' ''average''"
    using get_requirement_fallthrough [of "''unknown''" load_official_guidelines "''iron_mg''"] by simp
  have c: "get_requirement load_official_guidelines ''iron_mg'' ''''
     = get_requirement load_official_guidelines ''iron_mg'' ''average''"
    using get_requirement_fallthrough [of "''''" load_official_guidelines "''iron_mg''"] by simp
  have d: "get_requirement [(''x'', req None (Some 7) None ''g'' ''X'')] ''x'' ''male''
     = get_requirement [(''x'', req None (Some 7) None ''g'' ''X'')] ''x'' ''average''"
    using get_requirement_fallthrough [of "''male''" "[(''x'', req None (Some 7) None ''g'' ''X'')]" "''x''"
        "req None (Some 7) None ''g'' ''X''"]
    by (simp add: req_def)
  have e: "\<exists>v. get_requirement [(''x'', req None (Some 7) None ''g'' ''X'')] ''x'' ''male'' = Some v
          \<and> rv_rda v = Some 7"
    unfolding d by (simp add: get_requirement_def req_def)
  have f: "get_requirement [(''x'', req (Some 5) None None ''g'' ''X'')] ''x'' ''female''
     = get_requirement [(''x'', req (Some 5) None None ''g'' ''X'')] ''x'' ''average''"
    using get_requirement_fallthrough [of "''female''" "[(''x'', req (Some 5) None None ''g'' ''X'')]" "''x''"
        "req (Some 5) None None ''g'' ''X''"]
    by (simp add: req_def)
  from a b c d e f show ?thesis by blast
qed

section \<open>Properties of the requirement evaluator\<close>

lemma fuzzy_match_in: "fuzzy_match keys c \<noteq> '''' \<Longrightarrow> fuzzy_match keys c \<in> set keys"
  by (induction keys) (auto split: if_splits)

lemma match_nutrient_key_in:
  "match_nutrient_key g c \<noteq> '''' \<Longrightarrow> match_nutrient_key g c \<in> set (map fst g)"
  using fuzzy_match_in [of "map fst g" c]
  by (auto simp: match_nutrient_key_def split: if_splits)

lemma get_requirement_known:
  "k \<in> set (map fst g) \<Longrightarrow> \<exists>v. get_requirement g k gender = Some v"
proof -
  assume "k \<in> set (map fst g)"
  then have "map_of g k \<noteq> None" by (simp add: map_of_eq_None_iff)
  then show ?thesis by (auto simp: get_requirement_def Let_def)
qed

lemma official_nonzero:
  "list_all (\<lambda>k. list_all (\<lambda>gender.
        (case get_requirement load_official_guidelines k gender of
           None \<Rightarrow> True
         | Some v \<Rightarrow> rv_rda v \<noteq> Some 0 \<and> rv_upper_limit v \<noteq> Some 0))
        [''male'', ''female'', ''average''])
     (map fst load_official_guidelines)"
  by code_simp

lemma official_nonzero_any:
  assumes "get_requirement load_official_guidelines k gender = Some v"
  shows "rv_rda v \<noteq> Some 0 \<and> rv_upper_limit v \<noteq> Some 0"
proof -
  from assms have "map_of load_official_guidelines k \<noteq> None"
    by (auto simp: get_requirement_def split: option.splits)
  then have k: "k \<in> set (map fst load_official_guidelines)"
    by (simp add: map_of_eq_None_iff)
  have "\<exists>g' \<in> set [''male'', ''female'', ''average''].
      get_requirement load_official_guidelines k gender = get_requirement load_official_guidelines k g'"
    by (cases "gender = ''male''"; cases "gender = ''female''")
       (auto simp: get_requirement_def split: option.splits)
  then obtain g' where g': "g' \<in> set [''male'', ''female'', ''average'']"
    and eq: "get_requirement load_official_guidelines k g' = Some v"
    using assms by metis
  from official_nonzero k g'
  have "case get_requirement load_official_guidelines k g' of
           None \<Rightarrow> True
         | Some v \<Rightarrow> rv_rda v \<noteq> Some 0 \<and> rv_upper_limit v \<noteq> Some 0"
    unfolding list_all_iff by blast
  with eq show ?thesis by simp
qed

lemma check_loop_result:
  "\<exists>status. check_loop g gender profile st = Inr status
     \<and> (\<forall>n. n \<notin> fst ` set profile \<longrightarrow> map_of status n = map_of st n)
     \<and> (distinct (map fst profile) \<longrightarrow>
          (\<forall>n a. (n, a) \<in> set profile \<longrightarrow>
             (if match_nutrient_key g n \<noteq> ''''
              then \<exists>v. get_requirement g (match_nutrient_key g n) gender = Some v
                     \<and> map_of status n = Some (status_of v a)
              else map_of status n = map_of st n)))"
proof (induction profile arbitrary: st)
  case Nil
  then show ?case by simp
next
  case (Cons p profile)
  obtain n a where p: "p = (n, a)" by (cases p)
  define st' where "st' =
    (if match_nutrient_key g n \<noteq> ''''
     then (case get_requirement g (match_nutrient_key g n) gender of
             Some v \<Rightarrow> AList.update n (status_of v a) st | None \<Rightarrow> st)
     else st)"
  have known: "match_nutrient_key g n \<noteq> '''' \<Longrightarrow>
      \<exists>v. get_requirement g (match_nutrient_key g n) gender = Some v"
    using match_nutrient_key_in get_requirement_known by blast
  have step: "check_loop g gender ((n, a) # profile) st = check_loop g gender profile st'"
    using known by (auto simp: st'_def)
  from Cons.IH [of st']
  obtain status where s: "check_loop g gender profile st' = Inr status"
    and keep: "\<And>m. m \<notin> fst ` set profile \<Longrightarrow> map_of status m = map_of st' m"
    and rest: "\<And>m b. distinct (map fst profile) \<Longrightarrow> (m, b) \<in> set profile \<Longrightarrow>
             (if match_nutrient_key g m \<noteq> ''''
              then \<exists>v. get_requirement g (match_nutrient_key g m) gender = Some v
                     \<and> map_of status m = Some (status_of v b)
              else map_of status m = map_of st' m)"
    by blast
  have other: "\<And>m. m \<noteq> n \<Longrightarrow> map_of st' m = map_of st m"
    by (auto simp: st'_def update_conv' split: option.splits)
  have c1: "check_loop g gender (p # profile) st = Inr status"
    using step s by (simp add: p)
  have c2: "\<forall>m. m \<notin> fst ` set (p # profile) \<longrightarrow> map_of status m = map_of st m"
    using keep other by (auto simp: p)
  have c3: "distinct (map fst (p # profile)) \<longrightarrow>
          (\<forall>m b. (m, b) \<in> set (p # profile) \<longrightarrow>
             (if match_nutrient_key g m \<noteq> ''''
              then \<exists>v. get_requirement g (match_nutrient_key g m) gender = Some v
                     \<and> map_of status m = Some (status_of v b)
              else map_of status m = map_of st m))"
  proof (intro impI allI)
    fix m b
    assume d: "distinct (map fst (p # profile))" and mb: "(m, b) \<in> set (p # profile)"
    from d have dn: "n \<notin> fst ` set profile" and dp: "distinct (map fst profile)"
      by (auto simp: p)
    show "if match_nutrient_key g m \<noteq> ''''
              then \<exists>v. get_requirement g (match_nutrient_key g m) gender = Some v
                     \<and> map_of status m = Some (status_of v b)
              else map_of status m = map_of st m"
    proof (cases "(m, b) = (n, a)")
      case True
      then have mn: "m = n" "b = a" by auto
      from keep [OF dn] have k: "map_of status n = map_of st' n" .
      show ?thesis
      proof (cases "match_nutrient_key g n \<noteq> ''''")
        case True
        with known obtain v where v: "get_requirement g (match_nutrient_key g n) gender = Some v"
          by blast
        with True have "map_of st' n = Some (status_of v a)"
          by (simp add: st'_def update_conv')
        with True v k show ?thesis by (simp add: mn)
      next
        case False
        then have "st' = st" by (simp add: st'_def)
        with False k show ?thesis by (simp add: mn)
      qed
    next
      case False
      with mb have in_rest: "(m, b) \<in> set profile" by (auto simp: p)
      with dn have "m \<noteq> n" by (auto simp: image_iff)
      with rest [OF dp in_rest] other show ?thesis by auto
    qed
  qed
  from c1 c2 c3 show ?case by blast
qed

text \<open>
  Claim C6, as amended. With the official registry, every gender and every profile whose
  nutrient names are distinct: a row whose nutrient matches a registry key gets an entry
  with \<open>min\<close> the RDA and \<open>max\<close> the upper limit, classified \<open>below_minimum\<close> iff an RDA
  is defined and the amount is below it; otherwise \<open>above_maximum\<close> iff an upper limit is
  defined and the amount is above it; otherwise \<open>adequate\<close>. An amount equal to the RDA
  is never \<open>below_minimum\<close>, and an amount equal to the upper limit is never
  \<open>above_maximum\<close>.
\<close>

theorem check_daily_requirements_rule:
  assumes d: "distinct (map fst profile)"
    and m: "(nutrient, amount) \<in> set profile"
    and k: "match_nutrient_key load_official_guidelines nutrient \<noteq> ''''"
  shows "\<exists>status v e.
       check_daily_requirements load_official_guidelines gender profile = Inr status
     \<and> get_requirement load_official_guidelines
           (match_nutrient_key load_official_guidelines nutrient) gender = Some v
     \<and> map_of status nutrient = Some e
     \<and> st_amount e = amount \<and> st_min e = rv_rda v \<and> st_max e = rv_upper_limit v
     \<and> (st_status e = below_minimum \<longleftrightarrow> (\<exists>r. rv_rda v = Some r \<and> amount < r))
     \<and> (st_status e = above_maximum \<longleftrightarrow>
           \<not> (\<exists>r. rv_rda v = Some r \<and> amount < r) \<and> (\<exists>u. rv_upper_limit v = Some u \<and> amount > u))
     \<and> (st_status e = adequate \<longleftrightarrow>
           \<not> (\<exists>r. rv_rda v = Some r \<and> amount < r) \<and> \<not> (\<exists>u. rv_upper_limit v = Some u \<and> amount > u))
     \<and> (rv_rda v = Some amount \<longrightarrow> st_status e \<noteq> below_minimum)
     \<and> (rv_upper_limit v = Some amount \<longrightarrow> st_status e \<noteq> above_maximum)"
proof -
  from check_loop_result [of load_official_guidelines gender profile "[]"] d m k
  obtain status v where s: "check_loop load_official_guidelines gender profile [] = Inr status"
    and v: "get_requirement load_official_guidelines
           (match_nutrient_key load_official_guidelines nutrient) gender = Some v"
    and e: "map_of status nutrient = Some (status_of v amount)"
    by (metis (no_types, lifting))
  from official_nonzero_any [OF v]
  have nz: "rv_rda v \<noteq> Some 0" "rv_upper_limit v \<noteq> Some 0" by simp_all
  have a: "st_amount (status_of v amount) = amount" "st_min (status_of v amount) = rv_rda v"
    "st_max (status_of v amount) = rv_upper_limit v"
    by (simp_all add: status_of_def Let_def)
  have b: "st_status (status_of v amount) = below_minimum \<longleftrightarrow> (\<exists>r. rv_rda v = Some r \<and> amount < r)"
    using nz by (auto simp: status_of_def Let_def split: option.splits)
  have c: "st_status (status_of v amount) = above_maximum \<longleftrightarrow>
           \<not> (\<exists>r. rv_rda v = Some r \<and> amount < r) \<and> (\<exists>u. rv_upper_limit v = Some u \<and> amount > u)"
    using nz by (auto simp: status_of_def Let_def split: option.splits)
  have f: "st_status (status_of v amount) = adequate \<longleftrightarrow>
           \<not> (\<exists>r. rv_rda v = Some r \<and> amount < r) \<and> \<not> (\<exists>u. rv_upper_limit v = Some u \<and> amount > u)"
    using nz by (auto simp: status_of_def Let_def split: option.splits)
  have g: "rv_rda v = Some amount \<longrightarrow> st_status (status_of v amount) \<noteq> below_minimum"
    using b by auto
  have h: "rv_upper_limit v = Some amount \<longrightarrow> st_status (status_of v amount) \<noteq> above_maximum"
    using c by auto
  from s have s': "check_daily_requirements load_official_guidelines gender profile = Inr status"
    by (simp add: check_daily_requirements_def)
  from s' v e a b c f g h show ?thesis by blast
qed

theorem check_daily_requirements_rule_witness:
  "distinct (map fst [(''iron_mg'', 13 :: rat), (''magnesium_mg'', 355)])
   \<and> (''iron_mg'', 13) \<in> set [(''iron_mg'', 13 :: rat), (''magnesium_mg'', 355)]
   \<and> match_nutrient_key load_official_guidelines ''iron_mg'' \<noteq> ''''
   \<and> (\<exists>status e.
        check_daily_requirements load_official_guidelines ''average''
            [(''iron_mg'', 13), (''magnesium_mg'', 355)] = Inr status
        \<and> map_of status ''iron_mg'' = Some e
        \<and> st_amount e = 13 \<and> st_min e = Some 13 \<and> st_max e = Some 45
        \<and> st_status e = adequate)"
proof -
  have h1: "distinct (map fst [(''iron_mg'', 13 :: rat), (''magnesium_mg'', 355)])" by simp
  have h2: "(''iron_mg'', 13) \<in> set [(''iron_mg'', 13 :: rat), (''magnesium_mg'', 355)]" by simp
  have mk: "match_nutrient_key load_official_guidelines ''iron_mg'' = ''iron_mg''"
    by (simp add: match_nutrient_key_def load_official_guidelines_def)
  have h3: "match_nutrient_key load_official_guidelines ''iron_mg'' \<noteq> ''''"
    unfolding mk by simp
  have rq: "get_requirement load_official_guidelines ''iron_mg'' ''average''
      = Some \<lparr>rv_nutrient = ''Iron'', rv_rda = Some 13, rv_upper_limit = Some 45,
              rv_unit = ''mg'', rv_male = Some 8, rv_female = Some 18\<rparr>"
    by (simp add: get_requirement_def load_official_guidelines_def req_def)
  from check_daily_requirements_rule [OF h1 h2 h3, of "''average''"]
  have "\<exists>status e.
        check_daily_requirements load_official_guidelines ''average''
            [(''iron_mg'', 13), (''magnesium_mg'', 355)] = Inr status
        \<and> map_of status ''iron_mg'' = Some e
        \<and> st_amount e = 13 \<and> st_min e = Some 13 \<and> st_max e = Some 45
        \<and> st_status e = adequate"
    unfolding mk rq by auto
  with h1 h2 h3 show ?thesis by blast
qed

text \<open>
  The last sentence of claim C6 as it is stated fails for magnesium, whose RDA lies above
  its upper limit (male 400, female 310, average 355, upper limit 350): with the default
  gender \<open>average\<close> an amount equal to the RDA is \<open>above_maximum\<close> and an amount equal to
  the upper limit is \<open>below_minimum\<close>; neither is \<open>adequate\<close>.
\<close>

theorem check_daily_requirements_boundary_counterexample:
  "check_daily_requirements load_official_guidelines ''average'' [(''magnesium_mg'', 355)]
     = Inr [(''magnesium_mg'', \<lparr>st_amount = 355, st_min = Some 355, st_max = Some 350,
                                 st_unit = ''mg'', st_status = above_maximum\<rparr>)]
   \<and> check_daily_requirements load_official_guidelines ''average'' [(''magnesium_mg'', 350)]
     = Inr [(''magnesium_mg'', \<lparr>st_amount = 350, st_min = Some 355, st_max = Some 350,
                                 st_unit = ''mg'', st_status = below_minimum\<rparr>)]"
  by (simp add: check_daily_requirements_def match_nutrient_key_def load_official_guidelines_def
      get_requirement_def req_def status_of_def)

section \<open>Properties of the food resolver\<close>

lemma lower_apple_raw: "lower ''apple raw'' = ''apple raw''"
  by code_simp

lemma lower_Apple_Raw: "lower ''Apple, Raw'' = ''apple, raw''"
  by code_simp

lemma lower_apple_comma_raw: "lower ''apple, raw'' = ''apple, raw''"
  by code_simp

lemma simple_apple_raw: "lower (strip (remove_parens ''apple raw'')) = ''apple raw''"
  by code_simp

lemma apple_raw_tier2: "str_in (lower ''apple raw'') (lower ''Apple, Raw'') = False"
  by code_simp

lemma apple_raw_tier3:
  "str_in (lower (strip (remove_parens ''apple raw''))) (lower ''Apple, Raw'') = False"
  by code_simp

lemma apple_comma_raw_tier2: "str_in (lower ''apple, raw'') (lower ''Apple, Raw'') = True"
  by code_simp

lemma get_food_nutrients_member:
  assumes r: "r \<in> set (food_matches df food_name)"
    and n: "n \<in> set (get_available_nutrients df)"
    and x: "amounts r n = Some x" "x > 0"
  shows "(description r, n, x) \<in> set (get_food_nutrients df food_name)"
proof -
  from n have ne: "\<not> is_empty df" by (auto simp: get_available_nutrients_def split: if_splits)
  from r have m: "food_matches df food_name \<noteq> []" by auto
  show ?thesis
    using r n x ne m by (force simp: get_food_nutrients_def Let_def)
qed

text \<open>
  Claim C8, as amended. In any table, a record described \<open>Apple, Raw\<close> is not an exact
  match of the query \<open>apple raw\<close> and is not returned for that query by any tier: the
  lowercased description \<open>apple, raw\<close> has a comma that the query lacks. For the query
  \<open>apple, raw\<close> it is not an exact match either (the case differs), and when tier 1
  finds nothing the result is that of tier 2, it contains the record, and every nutrient of
  the record with an amount above zero is in the long-format result.
\<close>

theorem food_matches_apple_raw:
  assumes r: "r \<in> set (rows df)" and d: "description r = ''Apple, Raw''"
  shows "r \<notin> set (exact_matches df ''apple raw'')
       \<and> r \<notin> set (food_matches df ''apple raw'')
       \<and> r \<notin> set (exact_matches df ''apple, raw'')
       \<and> (exact_matches df ''apple, raw'' = [] \<longrightarrow>
            food_matches df ''apple, raw'' = contains_escaped df (lower ''apple, raw'')
          \<and> r \<in> set (food_matches df ''apple, raw'')
          \<and> (\<forall>n x. n \<in> set (get_available_nutrients df) \<and> amounts r n = Some x \<and> x > 0 \<longrightarrow>
                (''Apple, Raw'', n, x) \<in> set (get_food_nutrients df ''apple, raw'')))"
proof -
  have a: "r \<notin> set (exact_matches df ''apple raw'')"
    by (simp add: exact_matches_def d)
  have "r \<notin> set (contains_escaped df (lower ''apple raw''))"
    by (simp add: contains_escaped_def d apple_raw_tier2)
  moreover have "r \<notin> set (contains_escaped df (lower (strip (remove_parens ''apple raw''))))"
    by (simp only: simple_apple_raw) (simp add: contains_escaped_def d lower_Apple_Raw)
  ultimately have b: "r \<notin> set (food_matches df ''apple raw'')"
    using a by (simp add: food_matches_def)
  have c: "r \<notin> set (exact_matches df ''apple, raw'')"
    by (simp add: exact_matches_def d)
  have e: "exact_matches df ''apple, raw'' = [] \<longrightarrow>
            food_matches df ''apple, raw'' = contains_escaped df (lower ''apple, raw'')
          \<and> r \<in> set (food_matches df ''apple, raw'')
          \<and> (\<forall>n x. n \<in> set (get_available_nutrients df) \<and> amounts r n = Some x \<and> x > 0 \<longrightarrow>
                (''Apple, Raw'', n, x) \<in> set (get_food_nutrients df ''apple, raw''))"
  proof
    assume ex: "exact_matches df ''apple, raw'' = []"
    have t2: "r \<in> set (contains_escaped df (lower ''apple, raw''))"
      using r by (simp add: contains_escaped_def d apple_comma_raw_tier2)
    then have ne: "contains_escaped df (lower ''apple, raw'') \<noteq> []" by auto
    have fm: "food_matches df ''apple, raw'' = contains_escaped df (lower ''apple, raw'')"
      using ex ne by (simp add: food_matches_def)
    have "\<forall>n x. n \<in> set (get_available_nutrients df) \<and> amounts r n = Some x \<and> x > 0 \<longrightarrow>
                (''Apple, Raw'', n, x) \<in> set (get_food_nutrients df ''apple, raw'')"
      using get_food_nutrients_member [of r df "''apple, raw''"] t2 fm d by auto
    with fm t2 show "food_matches df ''apple, raw'' = contains_escaped df (lower ''apple, raw'')
          \<and> r \<in> set (food_matches df ''apple, raw'')
          \<and> (\<forall>n x. n \<in> set (get_available_nutrients df) \<and> amounts r n = Some x \<and> x > 0 \<longrightarrow>
                (''Apple, Raw'', n, x) \<in> set (get_food_nutrients df ''apple, raw''))"
      by simp
  qed
  from a b c e show ?thesis by blast
qed

lemma apple_rows: "rows apple_table = [food_row ''Apple, Raw'' 100 [(''iron_mg'', 0.12), (''zinc_mg'', 0)]]"
  by (simp add: apple_table_def)

theorem food_matches_apple_raw_witness:
  "food_row ''Apple, Raw'' 100 [(''iron_mg'', 0.12), (''zinc_mg'', 0)] \<in> set (rows apple_table)
   \<and> description (food_row ''Apple, Raw'' 100 [(''iron_mg'', 0.12), (''zinc_mg'', 0)]) = ''Apple, Raw''
   \<and> exact_matches apple_table ''apple, raw'' = []
   \<and> food_row ''Apple, Raw'' 100 [(''iron_mg'', 0.12), (''zinc_mg'', 0)]
        \<notin> set (food_matches apple_table ''apple raw'')
   \<and> food_row ''Apple, Raw'' 100 [(''iron_mg'', 0.12), (''zinc_mg'', 0)]
        \<in> set (food_matches apple_table ''apple, raw'')
   \<and> (''Apple, Raw'', ''iron_mg'', 0.12) \<in> set (get_food_nutrients apple_table ''apple, raw'')"
proof -
  let ?r = "food_row ''Apple, Raw'' 100 [(''iron_mg'', 0.12), (''zinc_mg'', 0)]"
  have h1: "?r \<in> set (rows apple_table)" by (simp add: apple_table_def)
  have h2: "description ?r = ''Apple, Raw''" by (simp add: food_row_def)
  have h3: "exact_matches apple_table ''apple, raw'' = []"
    by (simp add: exact_matches_def apple_table_def food_row_def)
  have h4: "''iron_mg'' \<in> set (get_available_nutrients apple_table)"
    by (simp add: get_available_nutrients_def is_empty_def apple_table_def columns_def metadata_columns_def)
  have h5: "amounts ?r ''iron_mg'' = Some 0.12" by (simp add: food_row_def)
  have h6: "(0::rat) < 0.12" by simp
  from food_matches_apple_raw [OF h1 h2] h3 h4 h5 h6 h1 h2 show ?thesis by blast
qed

text \<open>
  Claim C8 as it is stated fails: on the table holding the one record \<open>Apple, Raw\<close>, the
  query \<open>apple raw\<close> finds nothing at tier 1, nothing at tier 2, nothing at all, and
  \<open>get_food_nutrients\<close> returns the empty result.
\<close>

theorem get_food_nutrients_apple_raw_counterexample:
  "exact_matches apple_table ''apple raw'' = []
   \<and> contains_escaped apple_table (lower ''apple raw'') = []
   \<and> food_matches apple_table ''apple raw'' = []
   \<and> get_food_nutrients apple_table ''apple raw'' = []"
proof -
  have a: "exact_matches apple_table ''apple raw'' = []"
    by (simp add: exact_matches_def apple_table_def food_row_def)
  have b: "contains_escaped apple_table (lower ''apple raw'') = []"
    by (simp add: contains_escaped_def apple_table_def food_row_def lower_apple_raw lower_Apple_Raw)
  have c: "contains_escaped apple_table (lower (strip (remove_parens ''apple raw''))) = []"
    by (simp only: simple_apple_raw)
       (simp add: contains_escaped_def apple_table_def food_row_def lower_Apple_Raw)
  have d: "food_matches apple_table ''apple raw'' = []"
    by (simp only: food_matches_def a b c if_False simp_thms)
  have e: "get_food_nutrients apple_table ''apple raw'' = []"
    by (simp add: get_food_nutrients_def d)
  from a b d e show ?thesis by blast
qed

section \<open>Properties of the nutrient ranker\<close>

lemma set_insert_desc: "set (insert_desc x ys) = insert x (set ys)"
  by (induction ys) auto

lemma set_sort_desc: "set (sort_desc xs) = set xs"
  by (induction xs) (simp_all add: sort_desc_def set_insert_desc)

lemma length_insert_desc: "length (insert_desc x ys) = Suc (length ys)"
  by (induction ys) auto

lemma length_sort_desc: "length (sort_desc xs) = length xs"
  by (induction xs) (simp_all add: sort_desc_def length_insert_desc)

lemma set_head_subset: "set (head n xs) \<subseteq> set xs"
  by (simp add: head_def set_take_subset)

lemma head_all: "int (length xs) \<le> n \<Longrightarrow> head n xs = xs"
  by (simp add: head_def)

lemma ranked_cases:
  "x \<in> set (ranked col r) \<longleftrightarrow>
     (\<exists>v. column_value r col = Some v \<and> 0 < v
        \<and> x = \<lparr>rf_description = description r, amount_per_100g = v,
                rf_serving_size = serving_size r,
                amount_per_ounce = pl_div (v * 28.35) (serving_size r)\<rparr>)"
  by (cases "column_value r col") (auto simp: ranked_def)

lemma length_ranked: "length (ranked col r) \<le> 1"
  by (cases "column_value r col") (simp_all add: ranked_def)

lemma length_ranked_rows: "length (concat (map (ranked col) rs)) \<le> length rs"
proof (induction rs)
  case Nil
  then show ?case by simp
next
  case (Cons r rs)
  with length_ranked [of col r] show ?case by simp
qed

lemma get_top_foods_Inr:
  assumes o: "get_top_foods_for_nutrient df nutrient_name top_n = Inr out"
    and ne: "rows df \<noteq> []" and c: "select_column df nutrient_name = Some col"
  shows "out = head top_n (sort_desc (concat (map (ranked col) (rows df))))"
proof -
  from ne have e: "\<not> is_empty df" by (simp add: is_empty_def)
  show ?thesis
  proof (cases "col = ''description'' \<or> col = ''serving_size''")
    case True
    with o e c show ?thesis
      by (simp only: get_top_foods_for_nutrient_def if_False if_True option.case) simp
  next
    case False
    note f = this
    show ?thesis
    proof (cases "col = ''data_type'' \<or> col = ''serving_unit''")
      case True
      with o e c f show ?thesis
        by (simp only: get_top_foods_for_nutrient_def if_False if_True option.case) simp
    next
      case False
      with o e c f show ?thesis
        by (simp only: get_top_foods_for_nutrient_def if_False if_True option.case) simp
    qed
  qed
qed

lemma get_top_foods_nonempty:
  assumes o: "get_top_foods_for_nutrient df nutrient_name top_n = Inr out" and x: "x \<in> set out"
  shows "rows df \<noteq> [] \<and> (\<exists>col. select_column df nutrient_name = Some col)"
proof -
  have a: "rows df \<noteq> []"
  proof
    assume "rows df = []"
    then have "is_empty df" by (simp add: is_empty_def)
    with o have "out = []" by (simp only: get_top_foods_for_nutrient_def if_True) simp
    with x show False by simp
  qed
  then have e: "\<not> is_empty df" by (simp add: is_empty_def)
  have b: "select_column df nutrient_name \<noteq> None"
  proof
    assume "select_column df nutrient_name = None"
    with o e have "out = []"
      by (simp only: get_top_foods_for_nutrient_def if_False option.case) simp
    with x show False by simp
  qed
  from a b show ?thesis by blast
qed

lemma get_top_foods_member:
  assumes o: "get_top_foods_for_nutrient df nutrient_name top_n = Inr out" and x: "x \<in> set out"
  shows "\<exists>col r. select_column df nutrient_name = Some col \<and> r \<in> set (rows df) \<and> x \<in> set (ranked col r)"
proof -
  from get_top_foods_nonempty [OF o x] obtain col
    where ne: "rows df \<noteq> []" and c: "select_column df nutrient_name = Some col" by blast
  from get_top_foods_Inr [OF o ne c] x
  have "x \<in> set (head top_n (sort_desc (concat (map (ranked col) (rows df)))))" by simp
  then have "x \<in> set (sort_desc (concat (map (ranked col) (rows df))))"
    by (rule subsetD [OF set_head_subset])
  then have "x \<in> set (concat (map (ranked col) (rows df)))"
    by (simp only: set_sort_desc)
  then obtain r where "r \<in> set (rows df)" "x \<in> set (ranked col r)"
    by auto
  with c show ?thesis by blast
qed

text \<open>
  Claim C3, as amended. Every row of the ranking comes from a table row with a positive
  amount in the selected column; its \<open>amount_per_ounce\<close> is the code's own expression,
  the amount times 28.35 and that product divided by the serving size. The constant of
  the code is 28.35.
\<close>

theorem amount_per_ounce_constant:
  assumes o: "get_top_foods_for_nutrient df nutrient_name top_n = Inr out" and x: "x \<in> set out"
  shows "0 < amount_per_100g x
       \<and> (\<exists>r \<in> set (rows df). rf_description x = description r \<and> rf_serving_size x = serving_size r)
       \<and> amount_per_ounce x = pl_div (amount_per_100g x * 28.35) (rf_serving_size x)
       \<and> (rf_serving_size x \<noteq> 0 \<longrightarrow>
            amount_per_ounce x = Fin (amount_per_100g x * 28.35 / rf_serving_size x))"
proof -
  from get_top_foods_member [OF o x] obtain col r
    where r: "r \<in> set (rows df)" and xr: "x \<in> set (ranked col r)" by blast
  from xr obtain v where v: "0 < v"
      and xe: "x = \<lparr>rf_description = description r, amount_per_100g = v,
                rf_serving_size = serving_size r,
                amount_per_ounce = pl_div (v * 28.35) (serving_size r)\<rparr>"
    unfolding ranked_cases by blast
  have a: "0 < amount_per_100g x" using v by (simp add: xe)
  have b: "\<exists>r \<in> set (rows df). rf_description x = description r \<and> rf_serving_size x = serving_size r"
    using r by (auto simp: xe)
  have c: "amount_per_ounce x = pl_div (amount_per_100g x * 28.35) (rf_serving_size x)"
    by (simp add: xe)
  have d: "rf_serving_size x \<noteq> 0 \<longrightarrow>
            amount_per_ounce x = Fin (amount_per_100g x * 28.35 / rf_serving_size x)"
    unfolding c by (simp add: pl_div_def)
  from a b c d show ?thesis by blast
qed

section \<open>The ranking on example tables\<close>

lemma oats_ranking:
  "get_top_foods_for_nutrient oats_table ''iron'' 20
     = Inr [\<lparr>rf_description = ''Oats'', amount_per_100g = 10, rf_serving_size = 100,
             amount_per_ounce = Fin 2.835\<rparr>]"
  by (simp add: get_top_foods_for_nutrient_def is_empty_def oats_table_def food_row_def
      select_column_def columns_def metadata_columns_def lower_def lower_char_def
      ranked_def column_value_def pl_div_def sort_desc_def head_def)

theorem amount_per_ounce_constant_witness:
  "get_top_foods_for_nutrient oats_table ''iron'' 20
     = Inr [\<lparr>rf_description = ''Oats'', amount_per_100g = 10, rf_serving_size = 100,
             amount_per_ounce = Fin 2.835\<rparr>]
   \<and> Fin 2.835 = Fin (10 * 28.35 / 100)"
proof -
  let ?x = "\<lparr>rf_description = ''Oats'', amount_per_100g = 10, rf_serving_size = 100,
             amount_per_ounce = Fin 2.835\<rparr>"
  have m: "?x \<in> set [?x]" by simp
  from amount_per_ounce_constant [OF oats_ranking m]
  have "rf_serving_size ?x \<noteq> 0 \<longrightarrow>
     amount_per_ounce ?x = Fin (amount_per_100g ?x * 28.35 / rf_serving_size ?x)" by blast
  then have "Fin 2.835 = Fin (10 * 28.35 / 100)" by simp
  with oats_ranking show ?thesis by blast
qed

text \<open>
  Claim C3 as it is stated fails: for 10 units per 100 g serving the reported value is
  2.835, not \<open>10 * (28.3495 / 100) = 2.83495\<close>.
\<close>

theorem amount_per_ounce_constant_counterexample:
  "get_top_foods_for_nutrient oats_table ''iron'' 20
     = Inr [\<lparr>rf_description = ''Oats'', amount_per_100g = 10, rf_serving_size = 100,
             amount_per_ounce = Fin 2.835\<rparr>]
   \<and> Fin 2.835 \<noteq> Fin (10 * (28.3495 / 100))"
proof -
  have "Fin 2.835 \<noteq> Fin (10 * (28.3495 / 100))" by simp
  moreover have "get_top_foods_for_nutrient oats_table ''iron'' 20
     = Inr [\<lparr>rf_description = ''Oats'', amount_per_100g = 10, rf_serving_size = 100,
             amount_per_ounce = Fin 2.835\<rparr>]"
    by (simp add: get_top_foods_for_nutrient_def is_empty_def oats_table_def food_row_def
      select_column_def columns_def metadata_columns_def lower_def lower_char_def
      ranked_def column_value_def pl_div_def sort_desc_def head_def)
  ultimately show ?thesis by (rule conjI [rotated])
qed

lemma serving_ranking:
  "get_top_foods_for_nutrient serving_table ''iron'' 20
     = Inr [\<lparr>rf_description = ''Beef'', amount_per_100g = 2, rf_serving_size = 0,
             amount_per_ounce = PosInf\<rparr>,
            \<lparr>rf_description = ''Oats'', amount_per_100g = 10, rf_serving_size = 100,
             amount_per_ounce = Fin 2.835\<rparr>,
            \<lparr>rf_description = ''Pork'', amount_per_100g = 1, rf_serving_size = - 50,
             amount_per_ounce = Fin (- 0.567)\<rparr>]"
  by (simp add: get_top_foods_for_nutrient_def is_empty_def serving_table_def food_row_def
      select_column_def columns_def metadata_columns_def lower_def lower_char_def
      ranked_def column_value_def pl_div_def sort_desc_def head_def)

text \<open>
  Claim C4, as amended. The ranking filters on the amount only. Every row of the result
  comes from a table row whose amount in the selected column is above zero, and when
  \<open>top_n\<close> is at least the number of table rows every such table row is in the result,
  whatever its serving size. A result row with serving size zero has an infinite
  \<open>amount_per_ounce\<close>: the division by zero has been performed.
\<close>

theorem get_top_foods_serving_size:
  assumes o: "get_top_foods_for_nutrient df nutrient_name top_n = Inr out"
    and ne: "rows df \<noteq> []"
    and c: "select_column df nutrient_name = Some col"
  shows "(\<forall>x \<in> set out. \<exists>r \<in> set (rows df). \<exists>v. column_value r col = Some v \<and> 0 < v
            \<and> x = \<lparr>rf_description = description r, amount_per_100g = v,
                    rf_serving_size = serving_size r,
                    amount_per_ounce = pl_div (v * 28.35) (serving_size r)\<rparr>)
       \<and> (int (length (rows df)) \<le> top_n \<longrightarrow>
            (\<forall>r \<in> set (rows df). \<forall>v. column_value r col = Some v \<and> 0 < v \<longrightarrow>
               \<lparr>rf_description = description r, amount_per_100g = v,
                rf_serving_size = serving_size r,
                amount_per_ounce = pl_div (v * 28.35) (serving_size r)\<rparr> \<in> set out))
       \<and> (\<forall>x \<in> set out. rf_serving_size x = 0 \<longrightarrow> amount_per_ounce x = PosInf)"
proof -
  note eq = get_top_foods_Inr [OF o ne c]
  have sub: "\<And>x. x \<in> set out \<Longrightarrow> \<exists>r \<in> set (rows df). x \<in> set (ranked col r)"
  proof -
    fix x assume "x \<in> set out"
    then have "x \<in> set (head top_n (sort_desc (concat (map (ranked col) (rows df)))))"
      by (simp add: eq)
    then have "x \<in> set (sort_desc (concat (map (ranked col) (rows df))))"
      by (rule subsetD [OF set_head_subset])
    then have "x \<in> set (concat (map (ranked col) (rows df)))"
      by (simp only: set_sort_desc)
    then show "\<exists>r \<in> set (rows df). x \<in> set (ranked col r)" by auto
  qed
  have a: "\<forall>x \<in> set out. \<exists>r \<in> set (rows df). \<exists>v. column_value r col = Some v \<and> 0 < v
            \<and> x = \<lparr>rf_description = description r, amount_per_100g = v,
                    rf_serving_size = serving_size r,
                    amount_per_ounce = pl_div (v * 28.35) (serving_size r)\<rparr>"
  proof
    fix x assume "x \<in> set out"
    from sub [OF this] obtain r where r: "r \<in> set (rows df)" and xr: "x \<in> set (ranked col r)"
      by blast
    from xr have "\<exists>v. column_value r col = Some v \<and> 0 < v
            \<and> x = \<lparr>rf_description = description r, amount_per_100g = v,
                    rf_serving_size = serving_size r,
                    amount_per_ounce = pl_div (v * 28.35) (serving_size r)\<rparr>"
      by (simp only: ranked_cases)
    with r show "\<exists>r \<in> set (rows df). \<exists>v. column_value r col = Some v \<and> 0 < v
            \<and> x = \<lparr>rf_description = description r, amount_per_100g = v,
                    rf_serving_size = serving_size r,
                    amount_per_ounce = pl_div (v * 28.35) (serving_size r)\<rparr>"
      by (rule bexI [rotated])
  qed
  have b: "int (length (rows df)) \<le> top_n \<longrightarrow>
            (\<forall>r \<in> set (rows df). \<forall>v. column_value r col = Some v \<and> 0 < v \<longrightarrow>
               \<lparr>rf_description = description r, amount_per_100g = v,
                rf_serving_size = serving_size r,
                amount_per_ounce = pl_div (v * 28.35) (serving_size r)\<rparr> \<in> set out)"
  proof (intro impI ballI allI)
    fix r v
    assume n: "int (length (rows df)) \<le> top_n" and r: "r \<in> set (rows df)"
      and v: "column_value r col = Some v \<and> 0 < v"
    have "length (sort_desc (concat (map (ranked col) (rows df)))) \<le> length (rows df)"
      by (simp only: length_sort_desc length_ranked_rows)
    with n have "int (length (sort_desc (concat (map (ranked col) (rows df))))) \<le> top_n"
      by linarith
    then have "head top_n (sort_desc (concat (map (ranked col) (rows df))))
        = sort_desc (concat (map (ranked col) (rows df)))"
      by (rule head_all)
    with eq have "out = sort_desc (concat (map (ranked col) (rows df)))" by simp
    then have so: "set out = set (concat (map (ranked col) (rows df)))"
      by (simp only: set_sort_desc)
    from v have "\<lparr>rf_description = description r, amount_per_100g = v,
                rf_serving_size = serving_size r,
                amount_per_ounce = pl_div (v * 28.35) (serving_size r)\<rparr> \<in> set (ranked col r)"
      by (simp only: ranked_cases) blast
    with r show "\<lparr>rf_description = description r, amount_per_100g = v,
                rf_serving_size = serving_size r,
                amount_per_ounce = pl_div (v * 28.35) (serving_size r)\<rparr> \<in> set out"
      unfolding so by auto
  qed
  have d: "\<forall>x \<in> set out. rf_serving_size x = 0 \<longrightarrow> amount_per_ounce x = PosInf"
  proof (intro ballI impI)
    fix x assume xo: "x \<in> set out" and z: "rf_serving_size x = 0"
    from sub [OF xo] obtain r where xr: "x \<in> set (ranked col r)" by blast
    show "amount_per_ounce x = PosInf"
    proof (cases "column_value r col")
      case None
      with xr show ?thesis by (simp add: ranked_def)
    next
      case (Some v)
      show ?thesis
      proof (cases "0 < v")
        case True
        with xr Some have xe: "x = \<lparr>rf_description = description r, amount_per_100g = v,
                    rf_serving_size = serving_size r,
                    amount_per_ounce = pl_div (v * 28.35) (serving_size r)\<rparr>"
          by (simp add: ranked_def)
        from z have "serving_size r = 0" by (simp add: xe)
        with True show ?thesis by (simp add: xe pl_div_def)
      next
        case False
        with xr Some show ?thesis by (simp add: ranked_def)
      qed
    qed
  qed
  from a b d show ?thesis by (intro conjI)
qed

theorem get_top_foods_serving_size_witness:
  "rows serving_table \<noteq> []
   \<and> select_column serving_table ''iron'' = Some ''iron_mg''
   \<and> int (length (rows serving_table)) \<le> 20
   \<and> food_row ''Beef'' 0 [(''iron_mg'', 2)] \<in> set (rows serving_table)
   \<and> column_value (food_row ''Beef'' 0 [(''iron_mg'', 2)]) ''iron_mg'' = Some 2
   \<and> (\<exists>out. get_top_foods_for_nutrient serving_table ''iron'' 20 = Inr out
        \<and> \<lparr>rf_description = ''Beef'', amount_per_100g = 2, rf_serving_size = 0,
            amount_per_ounce = PosInf\<rparr> \<in> set out)"
proof -
  let ?out = "[\<lparr>rf_description = ''Beef'', amount_per_100g = 2, rf_serving_size = 0,
             amount_per_ounce = PosInf\<rparr>,
            \<lparr>rf_description = ''Oats'', amount_per_100g = 10, rf_serving_size = 100,
             amount_per_ounce = Fin 2.835\<rparr>,
            \<lparr>rf_description = ''Pork'', amount_per_100g = 1, rf_serving_size = - 50,
             amount_per_ounce = Fin (- 0.567)\<rparr>]"
  let ?r = "food_row ''Beef'' 0 [(''iron_mg'', 2)]"
  have h1: "rows serving_table \<noteq> []" by (simp add: serving_table_def)
  have h2: "select_column serving_table ''iron'' = Some ''iron_mg''"
    by (simp add: select_column_def serving_table_def columns_def metadata_columns_def
        lower_def lower_char_def)
  have h3: "int (length (rows serving_table)) \<le> 20" by (simp add: serving_table_def)
  have h4: "?r \<in> set (rows serving_table)" by (simp add: serving_table_def)
  have h5: "column_value ?r ''iron_mg'' = Some 2"
    by (simp add: column_value_def food_row_def)
  have h6: "description ?r = ''Beef''" "serving_size ?r = 0"
    by (simp_all add: food_row_def)
  have h7: "pl_div (2 * 28.35) 0 = PosInf" by (simp add: pl_div_def)
  from get_top_foods_serving_size [OF serving_ranking h1 h2]
  have i1: "int (length (rows serving_table)) \<le> 20 \<longrightarrow>
            (\<forall>r \<in> set (rows serving_table). \<forall>v. column_value r ''iron_mg'' = Some v \<and> 0 < v \<longrightarrow>
               \<lparr>rf_description = description r, amount_per_100g = v,
                rf_serving_size = serving_size r,
                amount_per_ounce = pl_div (v * 28.35) (serving_size r)\<rparr> \<in> set ?out)"
    by (rule conjunct1 [OF conjunct2])
  have i2: "\<forall>r \<in> set (rows serving_table). \<forall>v. column_value r ''iron_mg'' = Some v \<and> 0 < v \<longrightarrow>
               \<lparr>rf_description = description r, amount_per_100g = v,
                rf_serving_size = serving_size r,
                amount_per_ounce = pl_div (v * 28.35) (serving_size r)\<rparr> \<in> set ?out"
    by (rule mp [OF i1 h3])
  have i3: "\<forall>v. column_value ?r ''iron_mg'' = Some v \<and> 0 < v \<longrightarrow>
               \<lparr>rf_description = description ?r, amount_per_100g = v,
                rf_serving_size = serving_size ?r,
                amount_per_ounce = pl_div (v * 28.35) (serving_size ?r)\<rparr> \<in> set ?out"
    by (rule bspec [OF i2 h4])
  have i4: "column_value ?r ''iron_mg'' = Some 2 \<and> (0::rat) < 2 \<longrightarrow>
               \<lparr>rf_description = description ?r, amount_per_100g = 2,
                rf_serving_size = serving_size ?r,
                amount_per_ounce = pl_div (2 * 28.35) (serving_size ?r)\<rparr> \<in> set ?out"
    by (rule spec [OF i3])
  have pre: "column_value ?r ''iron_mg'' = Some 2 \<and> (0::rat) < 2"
    using h5 by simp
  have i5: "\<lparr>rf_description = description ?r, amount_per_100g = 2,
                rf_serving_size = serving_size ?r,
                amount_per_ounce = pl_div (2 * 28.35) (serving_size ?r)\<rparr> \<in> set ?out"
    by (rule mp [OF i4 pre])
  have i6: "\<lparr>rf_description = ''Beef'', amount_per_100g = 2, rf_serving_size = 0,
            amount_per_ounce = PosInf\<rparr> \<in> set ?out"
    using i5 unfolding h6 h7 .
  have "get_top_foods_for_nutrient serving_table ''iron'' 20 = Inr ?out
        \<and> \<lparr>rf_description = ''Beef'', amount_per_100g = 2, rf_serving_size = 0,
            amount_per_ounce = PosInf\<rparr> \<in> set ?out"
    using serving_ranking i6 by (rule conjI)
  then have "\<exists>out. get_top_foods_for_nutrient serving_table ''iron'' 20 = Inr out
        \<and> \<lparr>rf_description = ''Beef'', amount_per_100g = 2, rf_serving_size = 0,
            amount_per_ounce = PosInf\<rparr> \<in> set out"
    by (rule exI)
  with h1 h2 h3 h4 h5 show ?thesis by (intro conjI)
qed

text \<open>
  Claim C4 as it is stated fails: the records with serving size 0 and -50 are in the
  ranking, the first with an infinite value (the result of dividing by zero), the second
  with a negative one.
\<close>

theorem get_top_foods_serving_size_counterexample:
  "get_top_foods_for_nutrient serving_table ''iron'' 20
     = Inr [\<lparr>rf_description = ''Beef'', amount_per_100g = 2, rf_serving_size = 0,
             amount_per_ounce = PosInf\<rparr>,
            \<lparr>rf_description = ''Oats'', amount_per_100g = 10, rf_serving_size = 100,
             amount_per_ounce = Fin 2.835\<rparr>,
            \<lparr>rf_description = ''Pork'', amount_per_100g = 1, rf_serving_size = - 50,
             amount_per_ounce = Fin (- 0.567)\<rparr>]"
  by (simp add: get_top_foods_for_nutrient_def is_empty_def serving_table_def food_row_def
      select_column_def columns_def metadata_columns_def lower_def lower_char_def
      ranked_def column_value_def pl_div_def sort_desc_def head_def)

section \<open>The record selection in the aggregator\<close>

lemma lower_Apple: "lower ''Apple'' = ''apple''"
  by code_simp

lemma lower_Apple_Pie: "lower ''Apple Pie'' = ''apple pie''"
  by code_simp

lemma plain_apple: "plain_pattern ''apple''"
  by (simp add: plain_pattern_def regex_special_def)

text \<open>
  Claim C2 against the code. On a table holding \<open>Apple Pie\<close> and then \<open>Apple\<close>, the
  tiered resolution of \<open>get_food_nutrients\<close> resolves the query \<open>Apple\<close> to the exact
  match \<open>Apple\<close> and reports its iron amount 0.12. \<open>get_nutrient_profile\<close> selects
  \<open>Apple Pie\<close> for the same query, the first description that contains it, and
  100 g of \<open>Apple\<close> are given the iron of \<open>Apple Pie\<close>.
\<close>

theorem find_food_skips_exact_match:
  "food_matches pie_table ''Apple'' = [food_row ''Apple'' 100 [(''iron_mg'', 0.12)]]
   \<and> find_food reject_all pie_table ''Apple'' = Inr (Some (food_row ''Apple Pie'' 100 [(''iron_mg'', 1)]))
   \<and> description (food_row ''Apple Pie'' 100 [(''iron_mg'', 1)]) = ''Apple Pie''
   \<and> description (food_row ''Apple'' 100 [(''iron_mg'', 0.12)]) = ''Apple''
   \<and> get_food_nutrients pie_table ''Apple'' = [(''Apple'', ''iron_mg'', 0.12)]
   \<and> get_nutrient_profile reject_all load_official_guidelines ''average'' pie_table
        [\<lparr>food = ''Apple'', amount_g = 100\<rparr>]
        = Inr [(''iron_mg'', 1, Some (100 / 13))]"
proof -
  have e: "exact_matches pie_table ''Apple'' = [food_row ''Apple'' 100 [(''iron_mg'', 0.12)]]"
    by (simp add: exact_matches_def pie_table_def food_row_def)
  have a: "food_matches pie_table ''Apple'' = [food_row ''Apple'' 100 [(''iron_mg'', 0.12)]]"
    by (simp add: food_matches_def e)
  have b: "find_food reject_all pie_table ''Apple'' = Inr (Some (food_row ''Apple Pie'' 100 [(''iron_mg'', 1)]))"
    by (simp add: find_food_def str_contains_def lower_Apple plain_apple pie_table_def food_row_def
        lower_Apple_Pie)
  have c: "description (food_row ''Apple Pie'' 100 [(''iron_mg'', 1)]) = ''Apple Pie''"
    by (simp add: food_row_def)
  have d: "description (food_row ''Apple'' 100 [(''iron_mg'', 0.12)]) = ''Apple''"
    by (simp add: food_row_def)
  have ne: "\<not> is_empty pie_table" by (simp add: is_empty_def pie_table_def)
  have n: "get_available_nutrients pie_table = [''iron_mg'']"
    by (simp add: get_available_nutrients_def is_empty_def pie_table_def columns_def
        metadata_columns_def)
  have f: "get_food_nutrients pie_table ''Apple'' = [(''Apple'', ''iron_mg'', 0.12)]"
    by (simp add: get_food_nutrients_def ne a n food_row_def)
  have dv: "daily_value_pct load_official_guidelines ''average'' ''iron_mg'' 1 = Some (100 / 13)"
    by (simp add: daily_value_pct_def match_nutrient_key_def get_requirement_def
        load_official_guidelines_def req_def)
  have g: "get_nutrient_profile reject_all load_official_guidelines ''average'' pie_table
        [\<lparr>food = ''Apple'', amount_g = 100\<rparr>]
        = Inr [(''iron_mg'', 1, Some (100 / 13))]"
    by (simp add: get_nutrient_profile_def ne n b food_row_def dv)
  from a b c d f g show ?thesis by (intro conjI)
qed

section \<open>Properties of the aggregation\<close>











section \<open>The aggregation on example tables\<close>














section \<open>Properties of the cleaning pass\<close>















end
